theory Spec2Isabelle
  imports Main "HOL-Library.Sublist"
begin

section \<open>Python values\<close>

text \<open>
  The values that flow through \<^verbatim>\<open>ocean_compute.py\<close> and \<^verbatim>\<open>dispenser.py\<close>:
  \<^verbatim>\<open>None\<close>, booleans, unbounded integers, strings, lists, tuples and dictionaries.
  A dictionary is an association list in insertion order with string keys (the keys of
  the JSON mappings the provider returns and of the output options). \<open>PObj\<close> is an
  instance of a class the repository imports but does not define (for example an
  \<^verbatim>\<open>AlgorithmMetadata\<close>), known by a label only. Floating point numbers are not part
  of the model. A \<open>string\<close> is a list of 8-bit characters, read as code points below 256.
\<close>

datatype pyval =
    PNone
  | PBool bool
  | PInt int
  | PStr string
  | PList "pyval list"
  | PTuple "pyval list"
  | PDict "(string \<times> pyval) list"
  | PObj string

text \<open>
  Exceptions. The first five are raised by the code under study (an \<^verbatim>\<open>assert\<close> with
  its message, a subscript with the missing key, an attribute access, a type check);
  \<open>External\<close> is an exception raised inside a collaborator that is not part of the
  sources, which the code never catches and so passes on unchanged.
\<close>

datatype error =
    AssertionError string
  | KeyError pyval
  | IndexError
  | TypeError
  | AttributeError
  | External string

text \<open>Truth value testing (\<^verbatim>\<open>if x\<close>, \<^verbatim>\<open>x or y\<close>, \<^verbatim>\<open>assert x\<close>): an object of a
  class without \<^verbatim>\<open>__bool__\<close> and \<^verbatim>\<open>__len__\<close> is true.\<close>

fun truthy :: "pyval \<Rightarrow> bool" where
  "truthy PNone = False"
| "truthy (PBool b) = b"
| "truthy (PInt n) = (n \<noteq> 0)"
| "truthy (PStr s) = (s \<noteq> [])"
| "truthy (PList xs) = (xs \<noteq> [])"
| "truthy (PTuple xs) = (xs \<noteq> [])"
| "truthy (PDict d) = (d \<noteq> [])"
| "truthy (PObj c) = True"

text \<open>\<^verbatim>\<open>v == n\<close> for an integer literal \<open>n\<close>: a boolean compares as 0 or 1, a value of
  any other type is unequal.\<close>

fun eq_int :: "pyval \<Rightarrow> int \<Rightarrow> bool" where
  "eq_int (PInt m) n = (m = n)"
| "eq_int (PBool b) n = ((if b then 1 else 0) = n)"
| "eq_int _ n = False"

text \<open>\<^verbatim>\<open>v in (n1, n2, ...)\<close> for a tuple of integer literals.\<close>

definition in_ints :: "pyval \<Rightarrow> int list \<Rightarrow> bool" where
  "in_ints v ns = list_ex (eq_int v) ns"

text \<open>\<^verbatim>\<open>d[k]\<close> with a string key: \<^verbatim>\<open>KeyError\<close> on a dictionary without the key,
  \<^verbatim>\<open>TypeError\<close> on a value that is no dictionary (a list, a tuple and a string take
  integer indices only; the others are not subscriptable).\<close>

fun getitem :: "pyval \<Rightarrow> string \<Rightarrow> error + pyval" where
  "getitem (PDict d) k = (case map_of d k of None \<Rightarrow> Inl (KeyError (PStr k)) | Some v \<Rightarrow> Inr v)"
| "getitem _ k = Inl TypeError"

text \<open>\<^verbatim>\<open>d.get(k, default)\<close>: only a dictionary has the method.\<close>

fun dict_get :: "pyval \<Rightarrow> string \<Rightarrow> pyval \<Rightarrow> error + pyval" where
  "dict_get (PDict d) k dflt = (case map_of d k of None \<Rightarrow> Inr dflt | Some v \<Rightarrow> Inr v)"
| "dict_get _ k dflt = Inl AttributeError"

text \<open>\<^verbatim>\<open>d[k] = v\<close>: an existing key keeps its position, a new key goes last.\<close>

fun dict_setitem :: "string \<Rightarrow> pyval \<Rightarrow> (string \<times> pyval) list \<Rightarrow> (string \<times> pyval) list" where
  "dict_setitem k v [] = [(k, v)]"
| "dict_setitem k v (p # ps) = (if fst p = k then (k, v) # ps else p # dict_setitem k v ps)"

text \<open>\<^verbatim>\<open>d.update(other)\<close>: the items of \<open>other\<close> are stored one by one, in order.\<close>

definition dict_update :: "(string \<times> pyval) list \<Rightarrow> (string \<times> pyval) list \<Rightarrow> (string \<times> pyval) list" where
  "dict_update d other = fold (\<lambda>(k, v). dict_setitem k v) other d"

text \<open>\<^verbatim>\<open>t[i]\<close> with a literal index \<open>i \<ge> 0\<close>: a list or a tuple gives its element, a
  string a one-character string, each with \<^verbatim>\<open>IndexError\<close> out of range; a dictionary
  (whose keys are strings) has no such key; the other values are not subscriptable.\<close>

fun subscript :: "pyval \<Rightarrow> nat \<Rightarrow> error + pyval" where
  "subscript (PList xs) i = (if i < length xs then Inr (xs ! i) else Inl IndexError)"
| "subscript (PTuple xs) i = (if i < length xs then Inr (xs ! i) else Inl IndexError)"
| "subscript (PStr s) i = (if i < length s then Inr (PStr [s ! i]) else Inl IndexError)"
| "subscript (PDict d) i = Inl (KeyError (PInt (int i)))"
| "subscript _ i = Inl TypeError"

section \<open>Calls to collaborators\<close>

text \<open>
  \<^verbatim>\<open>OceanCompute\<close> talks to collaborators that are not in the sources: the asset
  resolver, the service agreement parser, the global configuration, the authentication
  object and the data provider. Each is a function that returns its value or the
  description of the exception it raised. Every call is recorded in a log, so that
  ``no request was sent'' is a statement about the log.
\<close>

record account =
  address :: pyval

record config =
  network_url :: pyval
  provider_address :: pyval
  aquarius_url :: pyval

record asset =
  asset_did :: pyval
  data_token_address :: pyval

record service_agreement =
  index :: pyval
  service_endpoint :: pyval

datatype event =
    GetConfig
  | GetUrl config
  | ResolveAsset pyval pyval
  | FromDdo asset
  | AuthGet account
  | ProviderRequest string "pyval list"

type_synonym 'a io = "event list \<Rightarrow> (error + 'a) \<times> event list"

definition ret :: "'a \<Rightarrow> 'a io" where
  "ret x = (\<lambda>log. (Inr x, log))"

definition raise :: "error \<Rightarrow> 'a io" where
  "raise e = (\<lambda>log. (Inl e, log))"

definition lift :: "error + 'a \<Rightarrow> 'a io" where
  "lift r = (\<lambda>log. (r, log))"

definition bind :: "'a io \<Rightarrow> ('a \<Rightarrow> 'b io) \<Rightarrow> 'b io" where
  "bind m f = (\<lambda>log. case m log of (Inl e, log') \<Rightarrow> (Inl e, log') | (Inr x, log') \<Rightarrow> f x log')"

text \<open>A call to a collaborator: the event is logged, then the call returns or raises.\<close>

definition call :: "event \<Rightarrow> string + 'a \<Rightarrow> 'a io" where
  "call ev r = (\<lambda>log. (case r of Inl x \<Rightarrow> Inl (External x) | Inr v \<Rightarrow> Inr v, log @ [ev]))"

text \<open>The module-level collaborators: \<^verbatim>\<open>ConfigProvider.get_config()\<close>,
  \<^verbatim>\<open>resolve_asset(did, metadata_store_url)\<close> and
  \<^verbatim>\<open>ServiceAgreement.from_ddo(ServiceTypes.CLOUD_COMPUTE, asset)\<close>.\<close>

record env =
  get_config :: "string + config"
  resolve_asset :: "pyval \<Rightarrow> pyval \<Rightarrow> string + asset"
  from_ddo :: "asset \<Rightarrow> string + service_agreement"

text \<open>The data provider: \<^verbatim>\<open>get_url(config)\<close> and the six job requests, each a function
  of its positional arguments.\<close>

record data_provider =
  get_url :: "config \<Rightarrow> string + pyval"
  start_compute_job :: "pyval list \<Rightarrow> string + pyval"
  compute_job_status :: "pyval list \<Rightarrow> string + pyval"
  compute_job_result :: "pyval list \<Rightarrow> string + pyval"
  stop_compute_job :: "pyval list \<Rightarrow> string + pyval"
  restart_compute_job :: "pyval list \<Rightarrow> string + pyval"
  delete_compute_job :: "pyval list \<Rightarrow> string + pyval"

text \<open>An \<^verbatim>\<open>OceanCompute\<close> instance: \<^verbatim>\<open>self._auth\<close> (its \<^verbatim>\<open>get\<close> method),
  \<^verbatim>\<open>self._config\<close> and \<^verbatim>\<open>self._data_provider\<close>.\<close>

record ocean_compute =
  auth :: "account \<Rightarrow> string + pyval"
  self_config :: config
  self_data_provider :: data_provider

section \<open>\<^verbatim>\<open>OceanCompute\<close>\<close>

text \<open>\<^verbatim>\<open>_status_from_job_info\<close>: the three items are evaluated in order, so a missing
  \<^verbatim>\<open>'status'\<close> is reported before a missing \<^verbatim>\<open>'statusText'\<close>.\<close>

definition status_from_job_info :: "pyval \<Rightarrow> error + pyval" where
  "status_from_job_info job_info =
    (case getitem job_info ''status'' of Inl e \<Rightarrow> Inl e | Inr s1 \<Rightarrow>
    (case getitem job_info ''status'' of Inl e \<Rightarrow> Inl e | Inr s2 \<Rightarrow>
    (case getitem job_info ''statusText'' of Inl e \<Rightarrow> Inl e | Inr t \<Rightarrow>
       Inr (PDict [(''ok'', PBool (\<not> in_ints s1 [31, 32])),
                   (''status'', s2),
                   (''statusText'', t)]))))"

text \<open>\<^verbatim>\<open>check_output_dict\<close>. The \<open>config\<close> argument is \<open>None\<close> or a configuration object
  (an object is true); without one the global configuration is fetched.\<close>

definition check_output_dict ::
  "env \<Rightarrow> pyval \<Rightarrow> account \<Rightarrow> data_provider \<Rightarrow> config option \<Rightarrow> pyval io" where
  "check_output_dict env output_def consumer_account data_provider config =
    bind (case config of None \<Rightarrow> call GetConfig (get_config env) | Some c \<Rightarrow> ret c) (\<lambda>config.
    bind (call (GetUrl config) (get_url data_provider config)) (\<lambda>url.
      let default_output_def =
            [(''nodeUri'', network_url config),
             (''brizoUri'', url),
             (''brizoAddress'', provider_address config),
             (''metadata'', PDict []),
             (''metadataUri'', aquarius_url config),
             (''owner'', address consumer_account),
             (''publishOutput'', PInt 0),
             (''publishAlgorithmLog'', PInt 0),
             (''whitelist'', PList [])];
          output_def = (case output_def of PDict d \<Rightarrow> d | _ \<Rightarrow> [])
      in ret (PDict (dict_update default_output_def output_def))))"

text \<open>\<^verbatim>\<open>_get_service_endpoint\<close>: the asset is resolved unless the caller has one.\<close>

definition get_service_endpoint ::
  "env \<Rightarrow> ocean_compute \<Rightarrow> pyval \<Rightarrow> asset option \<Rightarrow> pyval io" where
  "get_service_endpoint env self did asset =
    bind (case asset of
            None \<Rightarrow> call (ResolveAsset did (aquarius_url (self_config self)))
                      (resolve_asset env did (aquarius_url (self_config self)))
          | Some a \<Rightarrow> ret a) (\<lambda>asset.
    bind (call (FromDdo asset) (from_ddo env asset)) (\<lambda>sa.
      ret (service_endpoint sa)))"

text \<open>\<^verbatim>\<open>start\<close>, with assertions enabled. The arguments of \<^verbatim>\<open>start_compute_job\<close> are
  evaluated left to right, so the endpoint and the agreement are known before the token
  is fetched. The asset that \<^verbatim>\<open>resolve_asset\<close> returns is an object, hence true, and
  \<^verbatim>\<open>_get_service_endpoint\<close> does not resolve it again.\<close>

definition start ::
  "env \<Rightarrow> ocean_compute \<Rightarrow> pyval \<Rightarrow> account \<Rightarrow> pyval \<Rightarrow> pyval \<Rightarrow> pyval \<Rightarrow> pyval \<Rightarrow> pyval
     \<Rightarrow> pyval io" where
  "start env self did consumer_account transfer_tx_id algorithm_did algorithm_meta output job_id =
    (if \<not> (truthy algorithm_did \<or> truthy algorithm_meta)
     then raise (AssertionError ''either an algorithm did or an algorithm meta must be provided.'')
     else
       bind (check_output_dict env output consumer_account (self_data_provider self) None) (\<lambda>output.
       bind (call (ResolveAsset did (aquarius_url (self_config self)))
               (resolve_asset env did (aquarius_url (self_config self)))) (\<lambda>asset.
       bind (get_service_endpoint env self did (Some asset)) (\<lambda>service_endpoint.
       bind (call (FromDdo asset) (from_ddo env asset)) (\<lambda>sa.
       let tx_id = transfer_tx_id in
       bind (call (AuthGet consumer_account) (auth self consumer_account)) (\<lambda>token.
       let args = [did, service_endpoint, address consumer_account, token, index sa,
                   data_token_address asset, tx_id, algorithm_did, algorithm_meta,
                   output, job_id] in
       bind (call (ProviderRequest ''start_compute_job'' args)
               (start_compute_job (self_data_provider self) args)) (\<lambda>job_info.
       lift (getitem job_info ''jobId''))))))))"

definition status :: "env \<Rightarrow> ocean_compute \<Rightarrow> pyval \<Rightarrow> pyval \<Rightarrow> account \<Rightarrow> pyval io" where
  "status env self did job_id account =
    bind (get_service_endpoint env self did None) (\<lambda>endpoint.
    bind (call (AuthGet account) (auth self account)) (\<lambda>token.
    let args = [did, job_id, endpoint, address account, token] in
    bind (call (ProviderRequest ''compute_job_status'' args)
            (compute_job_status (self_data_provider self) args)) (\<lambda>job_info.
    lift (status_from_job_info job_info))))"

definition result :: "env \<Rightarrow> ocean_compute \<Rightarrow> pyval \<Rightarrow> pyval \<Rightarrow> account \<Rightarrow> pyval io" where
  "result env self did job_id account =
    bind (get_service_endpoint env self did None) (\<lambda>endpoint.
    bind (call (AuthGet account) (auth self account)) (\<lambda>token.
    let args = [did, job_id, endpoint, address account, token] in
    bind (call (ProviderRequest ''compute_job_result'' args)
            (compute_job_result (self_data_provider self) args)) (\<lambda>info_dict.
    bind (lift (dict_get info_dict ''resultsDid'' (PStr []))) (\<lambda>d.
    bind (lift (dict_get info_dict ''resultsUrls'' (PList []))) (\<lambda>u.
    bind (lift (dict_get info_dict ''algorithmLogUrl'' (PList []))) (\<lambda>l.
    ret (PDict [(''did'', d), (''urls'', u), (''logs'', l)])))))))"

definition stop :: "env \<Rightarrow> ocean_compute \<Rightarrow> pyval \<Rightarrow> pyval \<Rightarrow> account \<Rightarrow> pyval io" where
  "stop env self did job_id account =
    bind (get_service_endpoint env self did None) (\<lambda>endpoint.
    bind (call (AuthGet account) (auth self account)) (\<lambda>token.
    let args = [did, job_id, endpoint, address account, token] in
    bind (call (ProviderRequest ''stop_compute_job'' args)
            (stop_compute_job (self_data_provider self) args)) (\<lambda>job_info.
    lift (status_from_job_info job_info))))"

definition restart :: "env \<Rightarrow> ocean_compute \<Rightarrow> pyval \<Rightarrow> pyval \<Rightarrow> account \<Rightarrow> pyval io" where
  "restart env self did job_id account =
    bind (get_service_endpoint env self did None) (\<lambda>endpoint.
    bind (call (AuthGet account) (auth self account)) (\<lambda>token.
    let args = [did, job_id, endpoint, address account, token] in
    bind (call (ProviderRequest ''restart_compute_job'' args)
            (restart_compute_job (self_data_provider self) args)) (\<lambda>job_info.
    lift (status_from_job_info job_info))))"

definition delete :: "env \<Rightarrow> ocean_compute \<Rightarrow> pyval \<Rightarrow> pyval \<Rightarrow> account \<Rightarrow> pyval io" where
  "delete env self did job_id account =
    bind (get_service_endpoint env self did None) (\<lambda>endpoint.
    bind (call (AuthGet account) (auth self account)) (\<lambda>token.
    let args = [did, job_id, endpoint, address account, token] in
    bind (call (ProviderRequest ''delete_compute_job'' args)
            (delete_compute_job (self_data_provider self) args)) (\<lambda>job_info.
    lift (status_from_job_info job_info))))"

section \<open>Rendering values as text\<close>

text \<open>\<^verbatim>\<open>str(n)\<close> for an integer: decimal digits, most significant first, with a minus
  sign for a negative number.\<close>

definition digit_char :: "nat \<Rightarrow> char" where
  "digit_char d = char_of (48 + d)"

function str_nat :: "nat \<Rightarrow> string" where
  "str_nat n = (if n < 10 then [digit_char n] else str_nat (n div 10) @ [digit_char (n mod 10)])"
  by pat_completeness auto
termination
  by (relation "measure (\<lambda>n. n)") auto

declare str_nat.simps [simp del]

definition str_int :: "int \<Rightarrow> string" where
  "str_int i = (if i < 0 then CHR ''-'' # str_nat (nat (- i)) else str_nat (nat i))"

text \<open>Reading a decimal numeral back, to state that \<open>str_nat\<close> writes the number it is
  given.\<close>

definition digit_value :: "char \<Rightarrow> nat" where
  "digit_value c = of_char c - 48"

definition decimal_value :: "string \<Rightarrow> nat" where
  "decimal_value s = foldl (\<lambda>acc c. 10 * acc + digit_value c) 0 s"

text \<open>What an f-string field \<^verbatim>\<open>{v}\<close> prints. The text of a list, a tuple, a dictionary
  or a foreign object is fixed by Python's \<^verbatim>\<open>repr\<close> of its parts and is left to the
  parameter \<open>rp\<close>.\<close>

fun py_str :: "(pyval \<Rightarrow> string) \<Rightarrow> pyval \<Rightarrow> string" where
  "py_str rp PNone = ''None''"
| "py_str rp (PBool b) = (if b then ''True'' else ''False'')"
| "py_str rp (PInt n) = str_int n"
| "py_str rp (PStr s) = s"
| "py_str rp v = rp v"

text \<open>\<^verbatim>\<open>s.lower()\<close> on code points below 256: the letters A to Z and the upper case
  letters of Latin-1 (192 to 222 without the multiplication sign 215) move up by 32.\<close>

definition lower_char :: "char \<Rightarrow> char" where
  "lower_char c =
    (let n = (of_char c :: nat)
     in if (65 \<le> n \<and> n \<le> 90) \<or> (192 \<le> n \<and> n \<le> 222 \<and> n \<noteq> 215) then char_of (n + 32) else c)"

definition lower :: "string \<Rightarrow> string" where
  "lower s = map lower_char s"

definition newline :: string where
  "newline = [CHR 0x0A]"

section \<open>The dispenser model\<close>

text \<open>Modelled from the spec: the constant \<^verbatim>\<open>MAX_UINT256\<close> of
  \<^verbatim>\<open>ocean_lib.web3_internal.constants\<close> is not in the sources; the spec gives it as the
  maximum 256-bit unsigned integer, \<^verbatim>\<open>2**256 - 1\<close>.\<close>

definition MAX_UINT256 :: int where
  "MAX_UINT256 = 2 ^ 256 - 1"

text \<open>Modelled from the spec: the constant \<^verbatim>\<open>ZERO_ADDRESS\<close> of
  \<^verbatim>\<open>ocean_lib.web3_internal.constants\<close> is not in the sources; the spec gives the zero
  address sentinel as \<^verbatim>\<open>0x\<close> followed by forty zeros.\<close>

definition ZERO_ADDRESS :: string where
  "ZERO_ADDRESS = ''0x0000000000000000000000000000000000000000''"

text \<open>
  The helpers \<^verbatim>\<open>dispenser.py\<close> imports and the sources do not hold, as parameters:
  \<^verbatim>\<open>ContractBase.to_checksum_address(address)\<close>,
  \<^verbatim>\<open>get_address_of_type(config_dict, name)\<close>, the text that an f-string prints for
  \<^verbatim>\<open>from_wei(x)\<close>, and Python's \<^verbatim>\<open>repr\<close>. Each of the first three returns its value
  or the description of the exception it raised.
\<close>

record lib =
  to_checksum_address :: "pyval \<Rightarrow> string + pyval"
  get_address_of_type :: "pyval \<Rightarrow> string \<Rightarrow> string + pyval"
  from_wei :: "pyval \<Rightarrow> string + string"
  py_repr :: "pyval \<Rightarrow> string"

text \<open>The result of a helper, with its exception passed on.\<close>

definition helper :: "string + 'a \<Rightarrow> error + 'a" where
  "helper r = (case r of Inl x \<Rightarrow> Inl (External x) | Inr v \<Rightarrow> Inr v)"

text \<open>\<^verbatim>\<open>DispenserArguments\<close>. Its fields carry the prefix \<open>args_\<close> here, since
  \<^verbatim>\<open>DispenserStatus\<close> has fields of the same names.\<close>

record dispenser_arguments =
  args_max_tokens :: pyval
  args_max_balance :: pyval
  args_with_mint :: pyval
  args_allowed_swapper :: pyval

text \<open>\<^verbatim>\<open>DispenserArguments.__init__\<close>: an argument the caller leaves out (\<open>None\<close> of
  \<open>option\<close>) takes its default.\<close>

definition DispenserArguments_init ::
  "lib \<Rightarrow> pyval option \<Rightarrow> pyval option \<Rightarrow> pyval option \<Rightarrow> pyval option
     \<Rightarrow> error + dispenser_arguments" where
  "DispenserArguments_init lib max_tokens max_balance with_mint allowed_swapper =
    (let max_tokens = (case max_tokens of None \<Rightarrow> PInt MAX_UINT256 | Some v \<Rightarrow> v);
         max_balance = (case max_balance of None \<Rightarrow> PInt MAX_UINT256 | Some v \<Rightarrow> v);
         with_mint = (case with_mint of None \<Rightarrow> PBool True | Some v \<Rightarrow> v);
         allowed_swapper = (case allowed_swapper of None \<Rightarrow> PStr ZERO_ADDRESS | Some v \<Rightarrow> v)
     in case helper (to_checksum_address lib allowed_swapper) of
          Inl e \<Rightarrow> Inl e
        | Inr a \<Rightarrow> Inr \<lparr>args_max_tokens = max_tokens, args_max_balance = max_balance,
                        args_with_mint = with_mint, args_allowed_swapper = a\<rparr>)"

text \<open>\<^verbatim>\<open>DispenserArguments.to_tuple\<close>.\<close>

definition to_tuple :: "lib \<Rightarrow> dispenser_arguments \<Rightarrow> pyval \<Rightarrow> error + pyval" where
  "to_tuple lib self config_dict =
    (case helper (get_address_of_type lib config_dict ''Dispenser'') of
       Inl e \<Rightarrow> Inl e
     | Inr dispenser_address \<Rightarrow>
        (case helper (to_checksum_address lib dispenser_address) of
           Inl e \<Rightarrow> Inl e
         | Inr a \<Rightarrow> Inr (PTuple [a, args_max_tokens self, args_max_balance self,
                                  args_with_mint self, args_allowed_swapper self])))"

record dispenser_status =
  active :: pyval
  owner_address :: pyval
  is_minter :: pyval
  max_tokens :: pyval
  max_balance :: pyval
  balance :: pyval
  allowed_swapper :: pyval

text \<open>\<^verbatim>\<open>DispenserStatus.__init__\<close>: seven subscripts, in order; the first that fails
  ends the construction.\<close>

definition DispenserStatus_init :: "pyval \<Rightarrow> error + dispenser_status" where
  "DispenserStatus_init status_tup =
    (let t = status_tup in
     (case subscript t 0 of Inl e \<Rightarrow> Inl e | Inr t0 \<Rightarrow>
     (case subscript t 1 of Inl e \<Rightarrow> Inl e | Inr t1 \<Rightarrow>
     (case subscript t 2 of Inl e \<Rightarrow> Inl e | Inr t2 \<Rightarrow>
     (case subscript t 3 of Inl e \<Rightarrow> Inl e | Inr t3 \<Rightarrow>
     (case subscript t 4 of Inl e \<Rightarrow> Inl e | Inr t4 \<Rightarrow>
     (case subscript t 5 of Inl e \<Rightarrow> Inl e | Inr t5 \<Rightarrow>
     (case subscript t 6 of Inl e \<Rightarrow> Inl e | Inr t6 \<Rightarrow>
       Inr \<lparr>active = t0, owner_address = t1, is_minter = t2, max_tokens = t3,
            max_balance = t4, balance = t5, allowed_swapper = t6\<rparr>))))))))"

text \<open>\<^verbatim>\<open>isinstance(v, int)\<close>, the check \<^verbatim>\<open>@enforce_types\<close> makes for a parameter
  annotated \<^verbatim>\<open>int\<close>: \<^verbatim>\<open>bool\<close> is a subclass of \<^verbatim>\<open>int\<close>.\<close>

fun isinstance_int :: "pyval \<Rightarrow> bool" where
  "isinstance_int (PInt n) = True"
| "isinstance_int (PBool b) = True"
| "isinstance_int _ = False"

text \<open>\<^verbatim>\<open>_strWithWei\<close>.\<close>

definition strWithWei :: "lib \<Rightarrow> pyval \<Rightarrow> error + string" where
  "strWithWei lib x_wei =
    (if \<not> isinstance_int x_wei then Inl TypeError
     else case helper (from_wei lib x_wei) of
            Inl e \<Rightarrow> Inl e
          | Inr d \<Rightarrow> Inr (d @ '' ('' @ py_str (py_repr lib) x_wei @ '' wei)''))"

text \<open>\<^verbatim>\<open>DispenserStatus.__str__\<close>. The fields of the f-string are evaluated left to
  right; \<^verbatim>\<open>.lower()\<close> exists on a string only.\<close>

definition DispenserStatus_str :: "lib \<Rightarrow> dispenser_status \<Rightarrow> error + string" where
  "DispenserStatus_str lib self =
    (case strWithWei lib (balance self) of Inl e \<Rightarrow> Inl e | Inr b \<Rightarrow>
    (case strWithWei lib (max_tokens self) of Inl e \<Rightarrow> Inl e | Inr mt \<Rightarrow>
    (case strWithWei lib (max_balance self) of Inl e \<Rightarrow> Inl e | Inr mb \<Rightarrow>
    (let s = ''DispenserStatus: ''
           @ ''  active = '' @ py_str (py_repr lib) (active self) @ newline
           @ ''  owner_address = '' @ py_str (py_repr lib) (owner_address self) @ newline
           @ ''  balance (of tokens) = '' @ b @ newline
           @ ''  is_minter (can mint more tokens?) = '' @ py_str (py_repr lib) (is_minter self) @ newline
           @ ''  max_tokens (to dispense) = '' @ mt @ newline
           @ ''  max_balance (of requester) = '' @ mb @ newline
     in (case allowed_swapper self of
           PStr a \<Rightarrow>
             (if lower a = lower ZERO_ADDRESS
              then Inr (s @ ''  allowed_swapper = anyone can request'' @ newline)
              else Inr (s @ ''  allowed_swapper = '' @ a @ newline))
         | _ \<Rightarrow> Inl AttributeError)))))"

section \<open>Example collaborators\<close>

text \<open>Concrete collaborators on which the theorems below are instantiated: every call
  succeeds, and each job request answers with the mapping \<open>j\<close>.\<close>

definition example_account :: account where
  "example_account = \<lparr>address = PStr ''0xConsumer''\<rparr>"

definition example_config :: config where
  "example_config = \<lparr>network_url = PStr ''http://node'',
                      provider_address = PStr ''0xProvider'',
                      aquarius_url = PStr ''http://aquarius''\<rparr>"

definition example_asset :: asset where
  "example_asset = \<lparr>asset_did = PStr ''did:op:1'', data_token_address = PStr ''0xToken''\<rparr>"

definition example_agreement :: service_agreement where
  "example_agreement = \<lparr>index = PInt 2, service_endpoint = PStr ''http://provider/compute''\<rparr>"

definition example_env :: env where
  "example_env = \<lparr>get_config = Inr example_config,
                   resolve_asset = (\<lambda>did url. Inr example_asset),
                   from_ddo = (\<lambda>a. Inr example_agreement)\<rparr>"

definition example_provider :: "pyval \<Rightarrow> data_provider" where
  "example_provider j = \<lparr>get_url = (\<lambda>c. Inr (PStr ''http://provider'')),
                          start_compute_job = (\<lambda>args. Inr j),
                          compute_job_status = (\<lambda>args. Inr j),
                          compute_job_result = (\<lambda>args. Inr j),
                          stop_compute_job = (\<lambda>args. Inr j),
                          restart_compute_job = (\<lambda>args. Inr j),
                          delete_compute_job = (\<lambda>args. Inr j)\<rparr>"

definition example_compute :: "pyval \<Rightarrow> ocean_compute" where
  "example_compute j = \<lparr>auth = (\<lambda>a. Inr (PStr ''token'')),
                         self_config = example_config,
                         self_data_provider = example_provider j\<rparr>"

text \<open>Stand-ins for the helpers of the dispenser model: an address is accepted when it
  is a string of 42 characters and returned as it is (the checksummed form of an address
  without letters, such as the zero address, is the address itself); the address book
  knows the dispenser only; the decimal text of an amount is a fixed numeral.\<close>

definition example_lib :: lib where
  "example_lib = \<lparr>to_checksum_address =
                     (\<lambda>v. case v of PStr s \<Rightarrow> (if length s = 42 then Inr (PStr s) else Inl ''ValueError'')
                                  | _ \<Rightarrow> Inl ''TypeError''),
                   get_address_of_type =
                     (\<lambda>c name. if name = ''Dispenser''
                                then Inr (PStr ''0x1111111111111111111111111111111111111111'')
                                else Inl ''KeyError''),
                   from_wei = (\<lambda>v. Inr ''0.5''),
                   py_repr = (\<lambda>v. ''<object>'')\<rparr>"

text \<open>Two dispenser states as the contract reports them: one open to anyone (the zero
  address, written with a capital X), one restricted to a single address.\<close>

definition example_open_status :: pyval where
  "example_open_status =
     PTuple [PBool True, PStr ''0xOwner'', PBool False,
             PInt 500000000000000000, PInt 500000000000000000, PInt 500000000000000000,
             PStr ''0X0000000000000000000000000000000000000000'']"

definition example_restricted_status :: pyval where
  "example_restricted_status =
     PList [PBool True, PStr ''0xOwner'', PBool False,
            PInt 500000000000000000, PInt 500000000000000000, PInt 500000000000000000,
            PStr ''0xAbC0000000000000000000000000000000000001'']"

text \<open>The records that \<^verbatim>\<open>DispenserStatus\<close> builds from them.\<close>

definition example_open :: dispenser_status where
  "example_open =
     \<lparr>active = PBool True, owner_address = PStr ''0xOwner'', is_minter = PBool False,
      max_tokens = PInt 500000000000000000, max_balance = PInt 500000000000000000,
      balance = PInt 500000000000000000,
      allowed_swapper = PStr ''0X0000000000000000000000000000000000000000''\<rparr>"

definition example_restricted :: dispenser_status where
  "example_restricted =
     \<lparr>active = PBool True, owner_address = PStr ''0xOwner'', is_minter = PBool False,
      max_tokens = PInt 500000000000000000, max_balance = PInt 500000000000000000,
      balance = PInt 500000000000000000,
      allowed_swapper = PStr ''0xAbC0000000000000000000000000000000000001''\<rparr>"

section \<open>Status normalisation\<close>

lemma in_ints_PInt: "in_ints (PInt n) [31, 32] = (n = 31 \<or> n = 32)"
  by (simp add: in_ints_def)

text \<open>
  Claim C2. For a job-info mapping whose \<^verbatim>\<open>status\<close> is an integer \<open>n\<close>, the
  normalised result has \<^verbatim>\<open>ok\<close> false exactly when \<open>n\<close> is 31 or 32 and true for every
  other integer, and \<^verbatim>\<open>status\<close> and \<^verbatim>\<open>statusText\<close> are the values of the input; a
  mapping without \<^verbatim>\<open>statusText\<close> has no normalised result.
\<close>

theorem status_from_job_info_ok:
  assumes "map_of job_info ''status'' = Some (PInt n)"
  shows "status_from_job_info (PDict job_info) =
           (case map_of job_info ''statusText'' of
              None \<Rightarrow> Inl (KeyError (PStr ''statusText''))
            | Some t \<Rightarrow> Inr (PDict [(''ok'', PBool (n \<noteq> 31 \<and> n \<noteq> 32)),
                                   (''status'', PInt n),
                                   (''statusText'', t)]))"
  using assms by (simp add: status_from_job_info_def in_ints_PInt split: option.split)

theorem status_from_job_info_ok_witness:
  "status_from_job_info (PDict [(''status'', PInt 31), (''statusText'', PStr ''failed'')])
     = Inr (PDict [(''ok'', PBool False), (''status'', PInt 31), (''statusText'', PStr ''failed'')])
   \<and> status_from_job_info (PDict [(''statusText'', PStr ''odd''), (''status'', PInt (- 1))])
     = Inr (PDict [(''ok'', PBool True), (''status'', PInt (- 1)), (''statusText'', PStr ''odd'')])"
  using status_from_job_info_ok [of "[(''status'', PInt 31), (''statusText'', PStr ''failed'')]" 31]
        status_from_job_info_ok [of "[(''statusText'', PStr ''odd''), (''status'', PInt (- 1))]" "- 1"]
  by simp

section \<open>Output defaults\<close>

lemma map_of_dict_setitem: "map_of (dict_setitem k v d) = (map_of d)(k \<mapsto> v)"
  by (induction d) (auto simp: fun_eq_iff)

lemma map_of_dict_update_rev: "map_of (dict_update d other) = map_of d ++ map_of (rev other)"
  unfolding dict_update_def
  by (induction other arbitrary: d) (auto simp: map_of_dict_setitem)

lemma map_of_rev_distinct: "distinct (map fst xs) \<Longrightarrow> map_of (rev xs) = map_of xs"
proof (induction xs)
  case Nil
  then show ?case by simp
next
  case (Cons p xs)
  obtain k v where p: "p = (k, v)" by (cases p)
  from Cons.prems p have "map_of xs k = None"
    by (simp add: map_of_eq_None_iff)
  with Cons p show ?case
    by (auto simp: fun_eq_iff map_add_def split: option.split)
qed

lemma map_of_dict_update:
  assumes "distinct (map fst other)"
  shows "map_of (dict_update d other) k =
           (case map_of other k of Some v \<Rightarrow> Some v | None \<Rightarrow> map_of d k)"
  using assms by (simp add: map_of_dict_update_rev map_of_rev_distinct map_add_def)

lemma dict_update_Nil: "dict_update d [] = d"
  by (simp add: dict_update_def)

lemma keys_dict_setitem: "fst ` set (dict_setitem k v d) = insert k (fst ` set d)"
  by (induction d) auto

lemma distinct_dict_setitem:
  "distinct (map fst d) \<Longrightarrow> distinct (map fst (dict_setitem k v d))"
  by (induction d) (auto simp: keys_dict_setitem)

lemma distinct_dict_update:
  "distinct (map fst d) \<Longrightarrow> distinct (map fst (dict_update d other))"
  unfolding dict_update_def
  by (induction other arbitrary: d) (auto simp: distinct_dict_setitem)

lemma check_output_dict_value:
  assumes "(case config of None \<Rightarrow> get_config env | Some c \<Rightarrow> Inr c) = Inr cfg"
    and "get_url dp cfg = Inr url"
  shows "fst (check_output_dict env output_def acct dp config log) =
           Inr (PDict (dict_update
             [(''nodeUri'', network_url cfg),
              (''brizoUri'', url),
              (''brizoAddress'', provider_address cfg),
              (''metadata'', PDict []),
              (''metadataUri'', aquarius_url cfg),
              (''owner'', address acct),
              (''publishOutput'', PInt 0),
              (''publishAlgorithmLog'', PInt 0),
              (''whitelist'', PList [])]
             (case output_def of PDict d \<Rightarrow> d | _ \<Rightarrow> [])))"
  using assms
  by (cases config) (simp_all add: check_output_dict_def bind_def call_def ret_def)

text \<open>
  Claim C3. When the configuration and the provider's URL are available,
  \<^verbatim>\<open>check_output_dict\<close> returns exactly the default mapping for an input that is no
  dictionary (\<^verbatim>\<open>None\<close> among them); for a dictionary (its keys distinct, as in every
  Python dictionary) each key of the caller has the caller's value in the result and
  every other key has its default.
\<close>

theorem check_output_dict_defaults:
  assumes "(case config of None \<Rightarrow> get_config env | Some c \<Rightarrow> Inr c) = Inr cfg"
    and "get_url dp cfg = Inr url"
    and "defaults = [(''nodeUri'', network_url cfg),
                     (''brizoUri'', url),
                     (''brizoAddress'', provider_address cfg),
                     (''metadata'', PDict []),
                     (''metadataUri'', aquarius_url cfg),
                     (''owner'', address acct),
                     (''publishOutput'', PInt 0),
                     (''publishAlgorithmLog'', PInt 0),
                     (''whitelist'', PList [])]"
  shows "((\<forall>d. output_def \<noteq> PDict d) \<longrightarrow>
            fst (check_output_dict env output_def acct dp config log) = Inr (PDict defaults))
       \<and> (distinct (map fst d) \<longrightarrow>
            (\<exists>r. fst (check_output_dict env (PDict d) acct dp config log) = Inr (PDict r)
               \<and> (\<forall>k. map_of r k = (case map_of d k of Some v \<Rightarrow> Some v
                                                      | None \<Rightarrow> map_of defaults k))))"
proof (intro conjI impI)
  assume "\<forall>d. output_def \<noteq> PDict d"
  then have "(case output_def of PDict d \<Rightarrow> d | _ \<Rightarrow> []) = []"
    by (cases output_def) simp_all
  then show "fst (check_output_dict env output_def acct dp config log) = Inr (PDict defaults)"
    using check_output_dict_value [OF assms(1,2), of output_def acct log]
    by (simp add: dict_update_Nil assms(3))
next
  assume dist: "distinct (map fst d)"
  have "fst (check_output_dict env (PDict d) acct dp config log)
          = Inr (PDict (dict_update defaults d))"
    using check_output_dict_value [OF assms(1,2), of "PDict d" acct log]
    by (simp add: assms(3))
  then show "\<exists>r. fst (check_output_dict env (PDict d) acct dp config log) = Inr (PDict r)
               \<and> (\<forall>k. map_of r k = (case map_of d k of Some v \<Rightarrow> Some v
                                                      | None \<Rightarrow> map_of defaults k))"
    using map_of_dict_update [OF dist] by blast
qed

lemmas example_defs = example_env_def example_compute_def example_provider_def
  example_config_def example_account_def example_asset_def example_agreement_def

theorem check_output_dict_defaults_witness:
  "fst (check_output_dict example_env PNone example_account (example_provider PNone) None [])
     = Inr (PDict [(''nodeUri'', PStr ''http://node''),
                   (''brizoUri'', PStr ''http://provider''),
                   (''brizoAddress'', PStr ''0xProvider''),
                   (''metadata'', PDict []),
                   (''metadataUri'', PStr ''http://aquarius''),
                   (''owner'', PStr ''0xConsumer''),
                   (''publishOutput'', PInt 0),
                   (''publishAlgorithmLog'', PInt 0),
                   (''whitelist'', PList [])])
   \<and> (\<exists>r. fst (check_output_dict example_env (PDict [(''publishOutput'', PInt 1)]) example_account
                  (example_provider PNone) None []) = Inr (PDict r)
          \<and> map_of r ''publishOutput'' = Some (PInt 1)
          \<and> map_of r ''publishAlgorithmLog'' = Some (PInt 0)
          \<and> map_of r ''owner'' = Some (PStr ''0xConsumer''))"
proof -
  have a: "(case None of None \<Rightarrow> get_config example_env | Some c \<Rightarrow> Inr c) = Inr example_config"
    by (simp add: example_env_def)
  have b: "get_url (example_provider PNone) example_config = Inr (PStr ''http://provider'')"
    by (simp add: example_provider_def)
  note t = check_output_dict_defaults [OF a b refl, where output_def = PNone
      and acct = example_account and log = "[]" and d = "[(''publishOutput'', PInt 1)]"]
  from t have first:
    "fst (check_output_dict example_env PNone example_account (example_provider PNone) None [])
       = Inr (PDict [(''nodeUri'', PStr ''http://node''),
                     (''brizoUri'', PStr ''http://provider''),
                     (''brizoAddress'', PStr ''0xProvider''),
                     (''metadata'', PDict []),
                     (''metadataUri'', PStr ''http://aquarius''),
                     (''owner'', PStr ''0xConsumer''),
                     (''publishOutput'', PInt 0),
                     (''publishAlgorithmLog'', PInt 0),
                     (''whitelist'', PList [])])"
    by (simp add: example_config_def example_account_def)
  from t obtain r where
    r: "fst (check_output_dict example_env (PDict [(''publishOutput'', PInt 1)])
              example_account (example_provider PNone) None []) = Inr (PDict r)"
    and look: "\<And>k. map_of r k =
        (case map_of [(''publishOutput'', PInt 1)] k of
           Some v \<Rightarrow> Some v
         | None \<Rightarrow> map_of [(''nodeUri'', network_url example_config),
                           (''brizoUri'', PStr ''http://provider''),
                           (''brizoAddress'', provider_address example_config),
                           (''metadata'', PDict []),
                           (''metadataUri'', aquarius_url example_config),
                           (''owner'', address example_account),
                           (''publishOutput'', PInt 0),
                           (''publishAlgorithmLog'', PInt 0),
                           (''whitelist'', PList [])] k)"
    by auto
  have "map_of r ''publishOutput'' = Some (PInt 1)"
    and "map_of r ''publishAlgorithmLog'' = Some (PInt 0)"
    and "map_of r ''owner'' = Some (PStr ''0xConsumer'')"
    by (simp_all add: look example_account_def)
  with first r show ?thesis by blast
qed

section \<open>The precondition of \<^verbatim>\<open>start\<close>\<close>

lemma call_no_assert: "fst (call ev r log) \<noteq> Inl (AssertionError msg)"
  by (simp add: call_def split: sum.split)

lemma ret_no_assert: "fst (ret x log) \<noteq> Inl (AssertionError msg)"
  by (simp add: ret_def)

lemma getitem_no_assert: "getitem v k \<noteq> Inl (AssertionError msg)"
  by (cases v) (simp_all split: option.split)

lemma bind_no_assert:
  assumes "\<And>log. fst (m log) \<noteq> Inl (AssertionError msg)"
    and "\<And>x log. fst (f x log) \<noteq> Inl (AssertionError msg)"
  shows "fst (bind m f log) \<noteq> Inl (AssertionError msg)"
proof (cases "m log")
  case (Pair r log')
  then show ?thesis
    using assms(1) [of log] assms(2) by (cases r) (simp_all add: bind_def)
qed

lemma check_output_dict_no_assert:
  "fst (check_output_dict env output_def acct dp cfg log) \<noteq> Inl (AssertionError msg)"
  unfolding check_output_dict_def Let_def
  by (intro bind_no_assert ret_no_assert call_no_assert)
     (simp split: option.split add: call_no_assert ret_no_assert)

lemma get_service_endpoint_no_assert:
  "fst (get_service_endpoint env self did a log) \<noteq> Inl (AssertionError msg)"
  unfolding get_service_endpoint_def
  by (intro bind_no_assert ret_no_assert call_no_assert)
     (simp split: option.split add: call_no_assert ret_no_assert)

lemma start_body_no_assert:
  assumes "truthy algorithm_did \<or> truthy algorithm_meta"
  shows "fst (start env self did acct tx algorithm_did algorithm_meta out jid log)
           \<noteq> Inl (AssertionError msg)"
proof -
  have "\<not> \<not> (truthy algorithm_did \<or> truthy algorithm_meta)"
    using assms by simp
  then show ?thesis
    unfolding start_def Let_def
    apply (simp only: if_False)
    apply (intro bind_no_assert check_output_dict_no_assert get_service_endpoint_no_assert
        call_no_assert)
    apply (simp add: lift_def getitem_no_assert)
    done
qed

lemma bind_log_prefix:
  assumes "prefix p (snd (m log))"
    and "\<And>x log'. prefix log' (snd (f x log'))"
  shows "prefix p (snd (bind m f log))"
proof (cases "m log")
  case (Pair r log')
  show ?thesis
  proof (cases r)
    case (Inl e)
    with Pair assms(1) show ?thesis by (simp add: bind_def)
  next
    case (Inr x)
    with Pair have "snd (bind m f log) = snd (f x log')" by (simp add: bind_def)
    moreover have "prefix p log'" using assms(1) Pair by simp
    ultimately show ?thesis using assms(2) [of log' x] by (metis prefix_order.trans)
  qed
qed

lemma ret_log_prefix: "prefix log (snd (ret x log))"
  by (simp add: ret_def)

lemma lift_log_prefix: "prefix log (snd (lift r log))"
  by (simp add: lift_def)

lemma call_log_prefix: "prefix log (snd (call ev r log))"
  by (simp add: call_def)

lemma get_service_endpoint_log_prefix:
  "prefix log (snd (get_service_endpoint env self did a log))"
  unfolding get_service_endpoint_def
  by (intro bind_log_prefix ret_log_prefix call_log_prefix)
     (simp split: option.split add: call_log_prefix ret_log_prefix)

lemma check_output_dict_first_call:
  "prefix (log @ [GetConfig]) (snd (check_output_dict env output_def acct dp None log))"
  unfolding check_output_dict_def Let_def
  by (intro bind_log_prefix ret_log_prefix call_log_prefix) (simp add: call_def)

lemma start_first_call:
  assumes "truthy algorithm_did \<or> truthy algorithm_meta"
  shows "prefix (log @ [GetConfig])
           (snd (start env self did acct tx algorithm_did algorithm_meta out jid log))"
proof -
  have "\<not> \<not> (truthy algorithm_did \<or> truthy algorithm_meta)"
    using assms by simp
  then show ?thesis
    unfolding start_def Let_def
    apply (simp only: if_False)
    apply (intro bind_log_prefix check_output_dict_first_call get_service_endpoint_log_prefix
        call_log_prefix lift_log_prefix)
    done
qed

text \<open>
  Claim C1, as amended. \<^verbatim>\<open>start\<close> fails with the assertion error, with no call to any
  collaborator (the log is unchanged), when neither \<^verbatim>\<open>algorithm_did\<close> nor
  \<^verbatim>\<open>algorithm_meta\<close> is supplied; when at least one of them is supplied, both of them
  included, \<^verbatim>\<open>start\<close> raises no assertion error and goes on to its first call, the
  one for the configuration.
\<close>

theorem start_precondition:
  "(\<not> truthy algorithm_did \<and> \<not> truthy algorithm_meta \<longrightarrow>
      start env self did acct tx algorithm_did algorithm_meta out jid log
        = (Inl (AssertionError ''either an algorithm did or an algorithm meta must be provided.''),
           log))
   \<and> (truthy algorithm_did \<or> truthy algorithm_meta \<longrightarrow>
      (\<forall>msg. fst (start env self did acct tx algorithm_did algorithm_meta out jid log)
                \<noteq> Inl (AssertionError msg))
      \<and> prefix (log @ [GetConfig])
           (snd (start env self did acct tx algorithm_did algorithm_meta out jid log)))"
proof (intro conjI impI allI)
  assume "\<not> truthy algorithm_did \<and> \<not> truthy algorithm_meta"
  then show "start env self did acct tx algorithm_did algorithm_meta out jid log
      = (Inl (AssertionError ''either an algorithm did or an algorithm meta must be provided.''),
         log)"
    by (simp add: start_def raise_def)
next
  fix msg
  assume "truthy algorithm_did \<or> truthy algorithm_meta"
  then show "fst (start env self did acct tx algorithm_did algorithm_meta out jid log)
      \<noteq> Inl (AssertionError msg)"
    by (rule start_body_no_assert)
next
  assume "truthy algorithm_did \<or> truthy algorithm_meta"
  then show "prefix (log @ [GetConfig])
      (snd (start env self did acct tx algorithm_did algorithm_meta out jid log))"
    by (rule start_first_call)
qed

theorem start_precondition_witness:
  "start example_env (example_compute (PDict [(''jobId'', PStr ''job-1'')])) (PStr ''did:op:1'')
      example_account (PStr ''0xtx'') PNone (PStr []) PNone PNone []
     = (Inl (AssertionError ''either an algorithm did or an algorithm meta must be provided.''), [])
   \<and> fst (start example_env (example_compute (PDict [(''jobId'', PStr ''job-1'')])) (PStr ''did:op:1'')
           example_account (PStr ''0xtx'') (PStr ''did:op:alg'') PNone PNone PNone [])
       \<noteq> Inl (AssertionError ''either an algorithm did or an algorithm meta must be provided.'')"
  using start_precondition [of PNone "PStr []" example_env
          "example_compute (PDict [(''jobId'', PStr ''job-1'')])" "PStr ''did:op:1''"
          example_account "PStr ''0xtx''" PNone PNone "[]"]
        start_precondition [of "PStr ''did:op:alg''" PNone example_env
          "example_compute (PDict [(''jobId'', PStr ''job-1'')])" "PStr ''did:op:1''"
          example_account "PStr ''0xtx''" PNone PNone "[]"]
  by simp

text \<open>With both \<^verbatim>\<open>algorithm_did\<close> and \<^verbatim>\<open>algorithm_meta\<close> supplied the assertion passes:
  the job is started and its id returned.\<close>

theorem start_both_supplied_counterexample:
  "truthy (PStr ''did:op:alg'') \<and> truthy (PObj ''AlgorithmMetadata'')
   \<and> fst (start example_env (example_compute (PDict [(''jobId'', PStr ''job-1'')]))
            (PStr ''did:op:1'') example_account (PStr ''0xtx'')
            (PStr ''did:op:alg'') (PObj ''AlgorithmMetadata'') PNone PNone [])
       = Inr (PStr ''job-1'')
   \<and> snd (start example_env (example_compute (PDict [(''jobId'', PStr ''job-1'')]))
            (PStr ''did:op:1'') example_account (PStr ''0xtx'')
            (PStr ''did:op:alg'') (PObj ''AlgorithmMetadata'') PNone PNone [])
       \<noteq> []"
  by (simp add: start_def check_output_dict_def get_service_endpoint_def bind_def call_def
      ret_def lift_def raise_def dict_update_def example_defs)

section \<open>The job operations\<close>

lemma get_service_endpoint_resolved:
  assumes "resolve_asset env did (aquarius_url (self_config self)) = Inr a"
    and "from_ddo env a = Inr sa"
  shows "get_service_endpoint env self did None log =
           (Inr (service_endpoint sa),
            log @ [ResolveAsset did (aquarius_url (self_config self)), FromDdo a])"
  using assms by (simp add: get_service_endpoint_def bind_def call_def ret_def)

lemma status_value:
  assumes "resolve_asset env did (aquarius_url (self_config self)) = Inr a"
    and "from_ddo env a = Inr sa"
    and "auth self account = Inr token"
    and "compute_job_status (self_data_provider self)
           [did, job_id, service_endpoint sa, address account, token] = Inr j"
  shows "fst (status env self did job_id account log) = status_from_job_info j"
  using assms(3,4)
  by (simp add: status_def get_service_endpoint_resolved [OF assms(1,2)] bind_def call_def lift_def)

lemma stop_value:
  assumes "resolve_asset env did (aquarius_url (self_config self)) = Inr a"
    and "from_ddo env a = Inr sa"
    and "auth self account = Inr token"
    and "stop_compute_job (self_data_provider self)
           [did, job_id, service_endpoint sa, address account, token] = Inr j"
  shows "fst (stop env self did job_id account log) = status_from_job_info j"
  using assms(3,4)
  by (simp add: stop_def get_service_endpoint_resolved [OF assms(1,2)] bind_def call_def lift_def)

lemma restart_value:
  assumes "resolve_asset env did (aquarius_url (self_config self)) = Inr a"
    and "from_ddo env a = Inr sa"
    and "auth self account = Inr token"
    and "restart_compute_job (self_data_provider self)
           [did, job_id, service_endpoint sa, address account, token] = Inr j"
  shows "fst (restart env self did job_id account log) = status_from_job_info j"
  using assms(3,4)
  by (simp add: restart_def get_service_endpoint_resolved [OF assms(1,2)] bind_def call_def lift_def)

lemma delete_value:
  assumes "resolve_asset env did (aquarius_url (self_config self)) = Inr a"
    and "from_ddo env a = Inr sa"
    and "auth self account = Inr token"
    and "delete_compute_job (self_data_provider self)
           [did, job_id, service_endpoint sa, address account, token] = Inr j"
  shows "fst (delete env self did job_id account log) = status_from_job_info j"
  using assms(3,4)
  by (simp add: delete_def get_service_endpoint_resolved [OF assms(1,2)] bind_def call_def lift_def)

lemma result_value:
  assumes "resolve_asset env did (aquarius_url (self_config self)) = Inr a"
    and "from_ddo env a = Inr sa"
    and "auth self account = Inr token"
    and "compute_job_result (self_data_provider self)
           [did, job_id, service_endpoint sa, address account, token] = Inr (PDict m)"
  shows "fst (result env self did job_id account log) =
           Inr (PDict [(''did'', case map_of m ''resultsDid'' of None \<Rightarrow> PStr [] | Some v \<Rightarrow> v),
                       (''urls'', case map_of m ''resultsUrls'' of None \<Rightarrow> PList [] | Some v \<Rightarrow> v),
                       (''logs'', case map_of m ''algorithmLogUrl'' of None \<Rightarrow> PList [] | Some v \<Rightarrow> v)])"
  using assms(3,4)
  by (simp add: result_def get_service_endpoint_resolved [OF assms(1,2)] bind_def call_def lift_def
      ret_def split: option.split)

lemma status_from_job_info_dict:
  "status_from_job_info (PDict m) =
     (case map_of m ''status'' of
        None \<Rightarrow> Inl (KeyError (PStr ''status''))
      | Some s \<Rightarrow>
         (case map_of m ''statusText'' of
            None \<Rightarrow> Inl (KeyError (PStr ''statusText''))
          | Some t \<Rightarrow> Inr (PDict [(''ok'', PBool (\<not> in_ints s [31, 32])),
                                 (''status'', s), (''statusText'', t)])))"
  by (simp add: status_from_job_info_def split: option.split)

lemma example_calls:
  "resolve_asset example_env did (aquarius_url (self_config (example_compute j))) = Inr example_asset"
  "from_ddo example_env example_asset = Inr example_agreement"
  "auth (example_compute j) example_account = Inr (PStr ''token'')"
  "compute_job_status (self_data_provider (example_compute j)) args = Inr j"
  "compute_job_result (self_data_provider (example_compute j)) args = Inr j"
  "stop_compute_job (self_data_provider (example_compute j)) args = Inr j"
  "restart_compute_job (self_data_provider (example_compute j)) args = Inr j"
  "delete_compute_job (self_data_provider (example_compute j)) args = Inr j"
  by (simp_all add: example_defs)

text \<open>
  Claim C8. When the provider's answer to \<^verbatim>\<open>compute_job_result\<close> is a mapping,
  \<^verbatim>\<open>result\<close> returns \<^verbatim>\<open>{did, urls, logs}\<close> with the values of \<^verbatim>\<open>resultsDid\<close>,
  \<^verbatim>\<open>resultsUrls\<close> and \<^verbatim>\<open>algorithmLogUrl\<close>; an absent field is replaced by the empty
  string (\<^verbatim>\<open>did\<close>) or the empty list (\<^verbatim>\<open>urls\<close>, \<^verbatim>\<open>logs\<close>) and no error is raised.
\<close>

theorem result_defaults:
  assumes "resolve_asset env did (aquarius_url (self_config self)) = Inr a"
    and "from_ddo env a = Inr sa"
    and "auth self account = Inr token"
    and "compute_job_result (self_data_provider self)
           [did, job_id, service_endpoint sa, address account, token] = Inr (PDict m)"
  shows "fst (result env self did job_id account log) =
           Inr (PDict [(''did'', case map_of m ''resultsDid'' of None \<Rightarrow> PStr [] | Some v \<Rightarrow> v),
                       (''urls'', case map_of m ''resultsUrls'' of None \<Rightarrow> PList [] | Some v \<Rightarrow> v),
                       (''logs'', case map_of m ''algorithmLogUrl'' of None \<Rightarrow> PList [] | Some v \<Rightarrow> v)])"
  by (rule result_value [OF assms])

theorem result_defaults_witness:
  "fst (result example_env (example_compute (PDict [(''resultsDid'', PStr ''did:op:out'')]))
          (PStr ''did:op:1'') (PStr ''job-1'') example_account [])
     = Inr (PDict [(''did'', PStr ''did:op:out''), (''urls'', PList []), (''logs'', PList [])])"
  using result_defaults [where env = example_env and did = "PStr ''did:op:1''"
          and self = "example_compute (PDict [(''resultsDid'', PStr ''did:op:out'')])"
          and m = "[(''resultsDid'', PStr ''did:op:out'')]" and job_id = "PStr ''job-1''"
          and account = example_account and log = "[]", OF example_calls(1,2,3,5)]
  by simp

text \<open>
  Claim C9. When the provider answers the requests of \<^verbatim>\<open>status\<close>, \<^verbatim>\<open>stop\<close>,
  \<^verbatim>\<open>restart\<close> and \<^verbatim>\<open>delete\<close> with the same value \<open>j\<close>, the four operations return
  the same thing, the normalisation \<^verbatim>\<open>_status_from_job_info\<close> of \<open>j\<close>.
\<close>

theorem stop_restart_delete_as_status:
  assumes "resolve_asset env did (aquarius_url (self_config self)) = Inr a"
    and "from_ddo env a = Inr sa"
    and "auth self account = Inr token"
    and "compute_job_status (self_data_provider self)
           [did, job_id, service_endpoint sa, address account, token] = Inr j"
    and "stop_compute_job (self_data_provider self)
           [did, job_id, service_endpoint sa, address account, token] = Inr j"
    and "restart_compute_job (self_data_provider self)
           [did, job_id, service_endpoint sa, address account, token] = Inr j"
    and "delete_compute_job (self_data_provider self)
           [did, job_id, service_endpoint sa, address account, token] = Inr j"
  shows "fst (status env self did job_id account log) = status_from_job_info j
       \<and> fst (stop env self did job_id account log) = fst (status env self did job_id account log)
       \<and> fst (restart env self did job_id account log) = fst (status env self did job_id account log)
       \<and> fst (delete env self did job_id account log) = fst (status env self did job_id account log)"
  using status_value [OF assms(1,2,3,4)] stop_value [OF assms(1,2,3,5)]
    restart_value [OF assms(1,2,3,6)] delete_value [OF assms(1,2,3,7)]
  by simp

theorem stop_restart_delete_as_status_witness:
  "fst (status example_env
          (example_compute (PDict [(''status'', PInt 70), (''statusText'', PStr ''Job finished'')]))
          (PStr ''did:op:1'') (PStr ''job-1'') example_account [])
     = Inr (PDict [(''ok'', PBool True), (''status'', PInt 70), (''statusText'', PStr ''Job finished'')])
   \<and> fst (stop example_env
          (example_compute (PDict [(''status'', PInt 70), (''statusText'', PStr ''Job finished'')]))
          (PStr ''did:op:1'') (PStr ''job-1'') example_account [])
     = Inr (PDict [(''ok'', PBool True), (''status'', PInt 70), (''statusText'', PStr ''Job finished'')])
   \<and> fst (restart example_env
          (example_compute (PDict [(''status'', PInt 70), (''statusText'', PStr ''Job finished'')]))
          (PStr ''did:op:1'') (PStr ''job-1'') example_account [])
     = Inr (PDict [(''ok'', PBool True), (''status'', PInt 70), (''statusText'', PStr ''Job finished'')])
   \<and> fst (delete example_env
          (example_compute (PDict [(''status'', PInt 70), (''statusText'', PStr ''Job finished'')]))
          (PStr ''did:op:1'') (PStr ''job-1'') example_account [])
     = Inr (PDict [(''ok'', PBool True), (''status'', PInt 70), (''statusText'', PStr ''Job finished'')])"
  using stop_restart_delete_as_status [where env = example_env and did = "PStr ''did:op:1''"
          and self = "example_compute
                        (PDict [(''status'', PInt 70), (''statusText'', PStr ''Job finished'')])"
          and j = "PDict [(''status'', PInt 70), (''statusText'', PStr ''Job finished'')]"
          and job_id = "PStr ''job-1''" and account = example_account and log = "[]",
          OF example_calls(1,2,3,4,6,7,8)]
  by (simp add: status_from_job_info_dict in_ints_def)

text \<open>
  Claim C10. When the provider's answer is a mapping without \<^verbatim>\<open>status\<close> or without
  \<^verbatim>\<open>statusText\<close>, each of \<^verbatim>\<open>status\<close>, \<^verbatim>\<open>stop\<close>, \<^verbatim>\<open>restart\<close> and \<^verbatim>\<open>delete\<close> fails with
  the key error of a missing key; a mapping with both keys is normalised; \<^verbatim>\<open>result\<close>
  returns a value for every mapping.
\<close>

theorem job_info_missing_key:
  assumes "resolve_asset env did (aquarius_url (self_config self)) = Inr a"
    and "from_ddo env a = Inr sa"
    and "auth self account = Inr token"
    and "compute_job_status (self_data_provider self)
           [did, job_id, service_endpoint sa, address account, token] = Inr (PDict m)"
    and "stop_compute_job (self_data_provider self)
           [did, job_id, service_endpoint sa, address account, token] = Inr (PDict m)"
    and "restart_compute_job (self_data_provider self)
           [did, job_id, service_endpoint sa, address account, token] = Inr (PDict m)"
    and "delete_compute_job (self_data_provider self)
           [did, job_id, service_endpoint sa, address account, token] = Inr (PDict m)"
    and "compute_job_result (self_data_provider self)
           [did, job_id, service_endpoint sa, address account, token] = Inr (PDict m)"
  shows "(map_of m ''status'' = None \<or> map_of m ''statusText'' = None \<longrightarrow>
            (\<exists>k. (k = ''status'' \<or> k = ''statusText'') \<and> map_of m k = None
               \<and> fst (status env self did job_id account log) = Inl (KeyError (PStr k))
               \<and> fst (stop env self did job_id account log) = Inl (KeyError (PStr k))
               \<and> fst (restart env self did job_id account log) = Inl (KeyError (PStr k))
               \<and> fst (delete env self did job_id account log) = Inl (KeyError (PStr k))))
       \<and> (map_of m ''status'' \<noteq> None \<and> map_of m ''statusText'' \<noteq> None \<longrightarrow>
            (\<exists>r. fst (status env self did job_id account log) = Inr r
               \<and> fst (stop env self did job_id account log) = Inr r
               \<and> fst (restart env self did job_id account log) = Inr r
               \<and> fst (delete env self did job_id account log) = Inr r))
       \<and> (\<exists>r. fst (result env self did job_id account log) = Inr r)"
proof -
  note ops = status_value [OF assms(1,2,3,4), of log] stop_value [OF assms(1,2,3,5), of log]
    restart_value [OF assms(1,2,3,6), of log] delete_value [OF assms(1,2,3,7), of log]
  have missing: "\<exists>k. (k = ''status'' \<or> k = ''statusText'') \<and> map_of m k = None
      \<and> status_from_job_info (PDict m) = Inl (KeyError (PStr k))"
    if "map_of m ''status'' = None \<or> map_of m ''statusText'' = None"
  proof (cases "map_of m ''status''")
    case None
    then show ?thesis by (simp add: status_from_job_info_dict)
  next
    case (Some s)
    with that have "map_of m ''statusText'' = None" by simp
    with Some show ?thesis by (simp add: status_from_job_info_dict)
  qed
  have present: "\<exists>r. status_from_job_info (PDict m) = Inr r"
    if "map_of m ''status'' \<noteq> None \<and> map_of m ''statusText'' \<noteq> None"
    using that by (auto simp: status_from_job_info_dict)
  have res: "\<exists>r. fst (result env self did job_id account log) = Inr r"
    using result_value [OF assms(1,2,3,8), of log] by simp
  from missing present res show ?thesis
    by (simp only: ops) blast
qed

theorem job_info_missing_key_witness:
  "fst (status example_env (example_compute (PDict [(''status'', PInt 70)]))
          (PStr ''did:op:1'') (PStr ''job-1'') example_account []) = Inl (KeyError (PStr ''statusText''))
   \<and> fst (delete example_env (example_compute (PDict [(''status'', PInt 70)]))
          (PStr ''did:op:1'') (PStr ''job-1'') example_account []) = Inl (KeyError (PStr ''statusText''))
   \<and> (\<exists>r. fst (result example_env (example_compute (PDict [(''status'', PInt 70)]))
          (PStr ''did:op:1'') (PStr ''job-1'') example_account []) = Inr r)"
  using job_info_missing_key [where env = example_env and did = "PStr ''did:op:1''"
          and self = "example_compute (PDict [(''status'', PInt 70)])"
          and m = "[(''status'', PInt 70)]" and job_id = "PStr ''job-1''"
          and account = example_account and log = "[]", OF example_calls(1,2,3,4,6,7,8,5)]
  by auto

section \<open>Rendering integers\<close>

lemma digit_value_digit_char: "d < 10 \<Longrightarrow> digit_value (digit_char d) = d"
  by (simp add: digit_value_def digit_char_def of_char_of)

lemma decimal_value_str_nat: "decimal_value (str_nat n) = n"
proof (induction n rule: str_nat.induct)
  case (1 n)
  show ?case
  proof (cases "n < 10")
    case True
    then show ?thesis
      by (subst str_nat.simps) (simp add: decimal_value_def digit_value_digit_char)
  next
    case False
    with 1 have "decimal_value (str_nat (n div 10)) = n div 10" by simp
    with False show ?thesis
      by (subst str_nat.simps) (simp add: decimal_value_def digit_value_digit_char)
  qed
qed

lemma str_nat_not_empty: "str_nat n \<noteq> []"
  by (subst str_nat.simps) simp

lemma digit_char_values:
  "digit_char 0 = CHR ''0''" "digit_char (Suc 0) = CHR ''1''" "digit_char 1 = CHR ''1''"
  "digit_char 2 = CHR ''2''" "digit_char 3 = CHR ''3''" "digit_char 4 = CHR ''4''"
  "digit_char 5 = CHR ''5''" "digit_char 6 = CHR ''6''" "digit_char 7 = CHR ''7''"
  "digit_char 8 = CHR ''8''" "digit_char 9 = CHR ''9''"
  by code_simp+

lemma str_int_example: "str_int 500000000000000000 = ''500000000000000000''"
  by (simp add: str_int_def str_nat.simps digit_char_values)

section \<open>The dispenser status\<close>

text \<open>
  Claim C4. For a sequence \<open>t\<close> (a list, a tuple, or a string read as its one-character
  strings) with elements \<open>xs\<close>: when \<open>xs\<close> has at least seven elements,
  \<^verbatim>\<open>DispenserStatus(t)\<close> has the fields \<^verbatim>\<open>active\<close>, \<^verbatim>\<open>owner_address\<close>, \<^verbatim>\<open>is_minter\<close>,
  \<^verbatim>\<open>max_tokens\<close>, \<^verbatim>\<open>max_balance\<close>, \<^verbatim>\<open>balance\<close>, \<^verbatim>\<open>allowed_swapper\<close> equal to the
  elements 0 to 6, unchanged; when it has fewer, the construction fails with an index
  error.
\<close>

theorem DispenserStatus_init_positional:
  assumes "t = PList xs \<or> t = PTuple xs \<or> (\<exists>s. t = PStr s \<and> xs = map (\<lambda>c. PStr [c]) s)"
  shows "DispenserStatus_init t =
           (if 7 \<le> length xs
            then Inr \<lparr>active = xs ! 0, owner_address = xs ! 1, is_minter = xs ! 2,
                      max_tokens = xs ! 3, max_balance = xs ! 4, balance = xs ! 5,
                      allowed_swapper = xs ! 6\<rparr>
            else Inl IndexError)"
proof -
  have sub: "subscript t i = (if i < length xs then Inr (xs ! i) else Inl IndexError)" for i
    using assms by auto
  show ?thesis
    by (simp add: DispenserStatus_init_def sub)
qed

theorem DispenserStatus_init_positional_witness:
  "DispenserStatus_init example_open_status = Inr example_open
   \<and> DispenserStatus_init example_restricted_status = Inr example_restricted
   \<and> DispenserStatus_init (PList [PBool True, PStr ''0xOwner'', PBool False]) = Inl IndexError
   \<and> DispenserStatus_init (PStr ''abc'') = Inl IndexError"
  using DispenserStatus_init_positional [of example_open_status
          "[PBool True, PStr ''0xOwner'', PBool False,
            PInt 500000000000000000, PInt 500000000000000000, PInt 500000000000000000,
            PStr ''0X0000000000000000000000000000000000000000'']"]
        DispenserStatus_init_positional [of example_restricted_status
          "[PBool True, PStr ''0xOwner'', PBool False,
            PInt 500000000000000000, PInt 500000000000000000, PInt 500000000000000000,
            PStr ''0xAbC0000000000000000000000000000000000001'']"]
        DispenserStatus_init_positional [of "PList [PBool True, PStr ''0xOwner'', PBool False]"
          "[PBool True, PStr ''0xOwner'', PBool False]"]
        DispenserStatus_init_positional [of "PStr ''abc''" "map (\<lambda>c. PStr [c]) ''abc''"]
  by (simp add: example_open_status_def example_restricted_status_def example_open_def
      example_restricted_def)

lemma strWithWei_int:
  assumes "from_wei lib (PInt n) = Inr d"
  shows "strWithWei lib (PInt n) = Inr (d @ '' ('' @ str_int n @ '' wei)'')"
  using assms by (simp add: strWithWei_def helper_def)

text \<open>
  Claim C7. For a status whose monetary fields are integers (with a decimal text from
  \<^verbatim>\<open>from_wei\<close>) and whose \<^verbatim>\<open>allowed_swapper\<close> is a string \<open>a\<close>: the rendering contains
  ``anyone can request'' when \<open>a\<close> equals the zero address up to letter case and contains
  \<open>a\<close> itself otherwise, and \<^verbatim>\<open>balance\<close>, \<^verbatim>\<open>max_tokens\<close> and \<^verbatim>\<open>max_balance\<close> are each
  written as the decimal text, a space, and the raw integer followed by ``wei'' in
  parentheses.
\<close>

theorem DispenserStatus_str_rendering:
  assumes "balance self = PInt b" and "max_tokens self = PInt mt" and "max_balance self = PInt mb"
    and "from_wei lib (PInt b) = Inr db" and "from_wei lib (PInt mt) = Inr dmt"
    and "from_wei lib (PInt mb) = Inr dmb"
    and "allowed_swapper self = PStr a"
  shows "\<exists>s. DispenserStatus_str lib self = Inr s
      \<and> (lower a = lower ZERO_ADDRESS \<longrightarrow> sublist ''anyone can request'' s)
      \<and> (lower a \<noteq> lower ZERO_ADDRESS \<longrightarrow> sublist a s)
      \<and> sublist (''balance (of tokens) = '' @ db @ '' ('' @ str_int b @ '' wei)'' @ newline) s
      \<and> sublist (''max_tokens (to dispense) = '' @ dmt @ '' ('' @ str_int mt @ '' wei)'' @ newline) s
      \<and> sublist (''max_balance (of requester) = '' @ dmb @ '' ('' @ str_int mb @ '' wei)'' @ newline) s"
proof -
  define p1 where "p1 = ''DispenserStatus: '' @ ''  active = '' @ py_str (py_repr lib) (active self)
      @ newline @ ''  owner_address = '' @ py_str (py_repr lib) (owner_address self) @ newline @ ''  ''"
  define x1 where "x1 = ''balance (of tokens) = '' @ db @ '' ('' @ str_int b @ '' wei)'' @ newline"
  define p2 where "p2 = ''  is_minter (can mint more tokens?) = ''
      @ py_str (py_repr lib) (is_minter self) @ newline @ ''  ''"
  define x2 where "x2 = ''max_tokens (to dispense) = '' @ dmt @ '' ('' @ str_int mt @ '' wei)'' @ newline"
  define x3 where "x3 = ''max_balance (of requester) = '' @ dmb @ '' ('' @ str_int mb @ '' wei)'' @ newline"
  define tl where "tl = (if lower a = lower ZERO_ADDRESS
      then ''  allowed_swapper = anyone can request'' @ newline
      else ''  allowed_swapper = '' @ a @ newline)"
  define s where "s = p1 @ x1 @ p2 @ x2 @ ''  '' @ x3 @ tl"
  have val: "DispenserStatus_str lib self = Inr s"
    by (simp add: DispenserStatus_str_def assms(1,2,3,7) strWithWei_int [OF assms(4)]
        strWithWei_int [OF assms(5)] strWithWei_int [OF assms(6)]
        s_def p1_def x1_def p2_def x2_def x3_def tl_def)
  have b1: "sublist x1 s"
    unfolding s_def by (rule sublist_appendI)
  have b2: "sublist x2 s"
    using sublist_appendI [of x2 "p1 @ x1 @ p2" "''  '' @ x3 @ tl"] by (simp add: s_def)
  have b3: "sublist x3 s"
    using sublist_appendI [of x3 "p1 @ x1 @ p2 @ x2 @ ''  ''" tl] by (simp add: s_def)
  have zero: "sublist ''anyone can request'' s" if "lower a = lower ZERO_ADDRESS"
    using sublist_appendI [of "''anyone can request''"
        "p1 @ x1 @ p2 @ x2 @ ''  '' @ x3 @ ''  allowed_swapper = ''" newline] that
    by (simp add: s_def tl_def)
  have other: "sublist a s" if "lower a \<noteq> lower ZERO_ADDRESS"
    using sublist_appendI [of a "p1 @ x1 @ p2 @ x2 @ ''  '' @ x3 @ ''  allowed_swapper = ''" newline]
      that
    by (simp add: s_def tl_def)
  from val b1 b2 b3 zero other show ?thesis
    unfolding x1_def x2_def x3_def by blast
qed

lemma example_addresses:
  "lower ''0X0000000000000000000000000000000000000000'' = lower ZERO_ADDRESS"
  "lower ''0xAbC0000000000000000000000000000000000001'' \<noteq> lower ZERO_ADDRESS"
  by code_simp+

theorem DispenserStatus_str_rendering_witness:
  "(\<exists>s. DispenserStatus_str example_lib example_open = Inr s
       \<and> sublist ''anyone can request'' s
       \<and> sublist (''balance (of tokens) = 0.5 (500000000000000000 wei)'' @ newline) s
       \<and> sublist (''max_tokens (to dispense) = 0.5 (500000000000000000 wei)'' @ newline) s
       \<and> sublist (''max_balance (of requester) = 0.5 (500000000000000000 wei)'' @ newline) s)
   \<and> (\<exists>s. DispenserStatus_str example_lib example_restricted = Inr s
       \<and> sublist ''0xAbC0000000000000000000000000000000000001'' s)"
proof -
  have fw: "from_wei example_lib (PInt 500000000000000000) = Inr ''0.5''"
    by (simp add: example_lib_def)
  have "balance example_open = PInt 500000000000000000"
    and "max_tokens example_open = PInt 500000000000000000"
    and "max_balance example_open = PInt 500000000000000000"
    and "allowed_swapper example_open = PStr ''0X0000000000000000000000000000000000000000''"
    by (simp_all add: example_open_def)
  from DispenserStatus_str_rendering [OF this(1,2,3) fw fw fw this(4)]
  have first: "\<exists>s. DispenserStatus_str example_lib example_open = Inr s
       \<and> sublist ''anyone can request'' s
       \<and> sublist (''balance (of tokens) = 0.5 (500000000000000000 wei)'' @ newline) s
       \<and> sublist (''max_tokens (to dispense) = 0.5 (500000000000000000 wei)'' @ newline) s
       \<and> sublist (''max_balance (of requester) = 0.5 (500000000000000000 wei)'' @ newline) s"
    by (simp add: example_addresses str_int_example)
  have "balance example_restricted = PInt 500000000000000000"
    and "max_tokens example_restricted = PInt 500000000000000000"
    and "max_balance example_restricted = PInt 500000000000000000"
    and "allowed_swapper example_restricted = PStr ''0xAbC0000000000000000000000000000000000001''"
    by (simp_all add: example_restricted_def)
  from DispenserStatus_str_rendering [OF this(1,2,3) fw fw fw this(4)]
  have second: "\<exists>s. DispenserStatus_str example_lib example_restricted = Inr s
       \<and> sublist ''0xAbC0000000000000000000000000000000000001'' s"
    using example_addresses(2) by auto
  from first second show ?thesis ..
qed

section \<open>The dispenser arguments\<close>

text \<open>
  Claim C5. \<^verbatim>\<open>DispenserArguments()\<close> without overrides has \<^verbatim>\<open>with_mint\<close> true,
  \<^verbatim>\<open>max_tokens\<close> and \<^verbatim>\<open>max_balance\<close> equal to \<^verbatim>\<open>2**256 - 1\<close>, and as \<^verbatim>\<open>allowed_swapper\<close>
  the checksummed form of the zero address; for every call the field
  \<^verbatim>\<open>allowed_swapper\<close> is what \<^verbatim>\<open>to_checksum_address\<close> returns for the argument, and the
  construction fails when \<^verbatim>\<open>to_checksum_address\<close> rejects it.
\<close>

theorem DispenserArguments_init_defaults:
  "(to_checksum_address lib (PStr ZERO_ADDRESS) = Inr z \<longrightarrow>
      DispenserArguments_init lib None None None None
        = Inr \<lparr>args_max_tokens = PInt (2 ^ 256 - 1), args_max_balance = PInt (2 ^ 256 - 1),
               args_with_mint = PBool True, args_allowed_swapper = z\<rparr>)
   \<and> (to_checksum_address lib (case sw of None \<Rightarrow> PStr ZERO_ADDRESS | Some v \<Rightarrow> v) = Inr c \<longrightarrow>
        (\<exists>r. DispenserArguments_init lib mt mb wm sw = Inr r \<and> args_allowed_swapper r = c))
   \<and> (to_checksum_address lib (case sw of None \<Rightarrow> PStr ZERO_ADDRESS | Some v \<Rightarrow> v) = Inl x \<longrightarrow>
        DispenserArguments_init lib mt mb wm sw = Inl (External x))"
  by (simp add: DispenserArguments_init_def helper_def MAX_UINT256_def)

theorem DispenserArguments_init_defaults_witness:
  "DispenserArguments_init example_lib None None None None
     = Inr \<lparr>args_max_tokens = PInt (2 ^ 256 - 1), args_max_balance = PInt (2 ^ 256 - 1),
            args_with_mint = PBool True, args_allowed_swapper = PStr ZERO_ADDRESS\<rparr>
   \<and> DispenserArguments_init example_lib (Some (PInt 5)) None (Some (PBool False))
        (Some (PStr ''0x12'')) = Inl (External ''ValueError'')"
  using DispenserArguments_init_defaults [of example_lib "PStr ZERO_ADDRESS" None]
        DispenserArguments_init_defaults [of example_lib _ "Some (PStr ''0x12'')" _
          "Some (PInt 5)" None "Some (PBool False)" "''ValueError''"]
  by (simp add: example_lib_def ZERO_ADDRESS_def)

text \<open>
  Claim C6. When the address book resolves \<^verbatim>\<open>"Dispenser"\<close> and the address is accepted
  by \<^verbatim>\<open>to_checksum_address\<close>, \<^verbatim>\<open>to_tuple\<close> returns the 5-tuple of the dispenser's address
  (in checksummed form), \<^verbatim>\<open>max_tokens\<close>, \<^verbatim>\<open>max_balance\<close>, \<^verbatim>\<open>with_mint\<close> and
  \<^verbatim>\<open>allowed_swapper\<close>, in this order, the four fields as the instance holds them.
\<close>

theorem to_tuple_order:
  assumes "get_address_of_type lib config_dict ''Dispenser'' = Inr addr"
    and "to_checksum_address lib addr = Inr c"
  shows "to_tuple lib self config_dict =
           Inr (PTuple [c, args_max_tokens self, args_max_balance self,
                        args_with_mint self, args_allowed_swapper self])"
  using assms by (simp add: to_tuple_def helper_def)

theorem to_tuple_order_witness:
  "to_tuple example_lib
     \<lparr>args_max_tokens = PInt 7, args_max_balance = PInt 9, args_with_mint = PBool True,
      args_allowed_swapper = PStr ZERO_ADDRESS\<rparr> (PDict [])
     = Inr (PTuple [PStr ''0x1111111111111111111111111111111111111111'', PInt 7, PInt 9,
                    PBool True, PStr ZERO_ADDRESS])"
proof -
  have a: "get_address_of_type example_lib (PDict []) ''Dispenser''
             = Inr (PStr ''0x1111111111111111111111111111111111111111'')"
    by (simp add: example_lib_def)
  have b: "to_checksum_address example_lib (PStr ''0x1111111111111111111111111111111111111111'')
             = Inr (PStr ''0x1111111111111111111111111111111111111111'')"
    by (simp add: example_lib_def)
  show ?thesis
    using to_tuple_order [OF a b] by simp
qed

end
